theory Spec2Isabelle
  imports Main "HOL-Library.AList" "HOL-Library.Sublist"
begin

section \<open>Data model\<close>

text \<open>
  The objects the matching engine hands to the handler
  (\<^verbatim>\<open>placement/handlers/allocation_candidate.py\<close> reads these attributes and no others).
  Fields that two classes share carry the class as a prefix: \<open>rr_\<close> for ResourceRequest,
  \<open>ps_\<close> for ProviderSummary, \<open>psr_\<close> for ProviderSummaryResource.
\<close>

record resource_provider =
  uuid :: string

record resource_request =
  rr_resource_provider :: resource_provider
  rr_resource_class :: string
  rr_amount :: int

record allocation_request =
  resource_requests :: "resource_request list"

record provider_summary_resource =
  psr_resource_class :: string
  psr_capacity :: int
  psr_used :: int

record trait =
  trait_name :: string

record provider_summary =
  ps_resource_provider :: resource_provider
  ps_resources :: "provider_summary_resource list"
  ps_traits :: "trait list"

record allocation_candidates =
  allocation_requests :: "allocation_request list"
  provider_summaries :: "provider_summary list"

text \<open>
  The JSON-serialisable values the transformers build: Python ints, strings, lists and
  dicts with string keys. A dict is an association list in insertion order, as Python
  dicts iterate; its keys are distinct whenever it is built with \<open>setitem\<close> from the empty
  dict.
\<close>

datatype json =
  JInt int
| JStr string
| JList "json list"
| JDict "(string \<times> json) list"

text \<open>
  \<^verbatim>\<open>d[k] = v\<close> on a dict: the value of an existing key is replaced where it stands, a new
  key goes to the end.
\<close>

abbreviation setitem :: "(string \<times> 'v) list \<Rightarrow> string \<Rightarrow> 'v \<Rightarrow> (string \<times> 'v) list" where
  "setitem d k v \<equiv> AList.update k v d"

text \<open>
  \<^verbatim>\<open>d[k]\<close> on a \<^verbatim>\<open>collections.defaultdict\<close>: a missing key is first stored with the
  factory's value. The dict after the access is returned beside the value.
\<close>

definition defaultdict_getitem ::
  "'v \<Rightarrow> (string \<times> 'v) list \<Rightarrow> string \<Rightarrow> (string \<times> 'v) list \<times> 'v" where
  "defaultdict_getitem default_factory d k =
     (case map_of d k of
        Some v \<Rightarrow> (d, v)
      | None \<Rightarrow> (setitem d k default_factory, default_factory))"

text \<open>A \<^verbatim>\<open>{resource_class: amount}\<close> dict as it is serialised.\<close>

definition json_of_resources :: "(string \<times> int) list \<Rightarrow> json" where
  "json_of_resources resources = JDict (map (\<lambda>(rc, amount). (rc, JInt amount)) resources)"

section \<open>The allocation-request transformers\<close>

subsection \<open>Grouped by provider (microversion 1.12 and later)\<close>

text \<open>
  The values of \<^verbatim>\<open>rp_resources\<close> are the dicts \<^verbatim>\<open>dict(resources={})\<close>: one fixed key, held
  as a record so that \<^verbatim>\<open>[...]['resources']\<close> is a field access.
\<close>

record rp_entry =
  resources :: "(string \<times> int) list"

definition json_of_rp_entry :: "rp_entry \<Rightarrow> json" where
  "json_of_rp_entry e = JDict [(''resources'', json_of_resources (resources e))]"

text \<open>
  The body of the inner loop, lines 65-66. \<^verbatim>\<open>res_dict\<close> aliases the dict stored under the
  provider's uuid, so the assignment to \<^verbatim>\<open>res_dict[rr.resource_class]\<close> is written back
  under that uuid.
\<close>

definition dict_resource_request ::
  "(string \<times> rp_entry) list \<Rightarrow> resource_request \<Rightarrow> (string \<times> rp_entry) list" where
  "dict_resource_request rp_resources rr =
     (let rp_uuid = uuid (rr_resource_provider rr);
          (rp_resources, entry) = defaultdict_getitem \<lparr>resources = []\<rparr> rp_resources rp_uuid;
          res_dict = resources entry;
          res_dict = setitem res_dict (rr_resource_class rr) (rr_amount rr)
      in setitem rp_resources rp_uuid (entry\<lparr>resources := res_dict\<rparr>))"

text \<open>One pass of the outer loop, lines 63-67: the object appended to \<^verbatim>\<open>results\<close>.\<close>

definition dict_allocation_request :: "allocation_request \<Rightarrow> json" where
  "dict_allocation_request ar =
     (let rp_resources = foldl dict_resource_request [] (resource_requests ar)
      in JDict [(''allocations'',
           JDict (map (\<lambda>(rp_uuid, e). (rp_uuid, json_of_rp_entry e)) rp_resources))])"

definition transform_allocation_requests_dict :: "allocation_request list \<Rightarrow> json list" where
  "transform_allocation_requests_dict alloc_reqs =
     foldl (\<lambda>results ar. results @ [dict_allocation_request ar]) [] alloc_reqs"

subsection \<open>Flat list (before microversion 1.12)\<close>

text \<open>The body of the inner loop, lines 99-100.\<close>

definition list_resource_request ::
  "(string \<times> (string \<times> int) list) list \<Rightarrow> resource_request \<Rightarrow>
   (string \<times> (string \<times> int) list) list" where
  "list_resource_request provider_resources rr =
     (let rp_uuid = uuid (rr_resource_provider rr);
          (provider_resources, res_dict) = defaultdict_getitem [] provider_resources rp_uuid;
          res_dict = setitem res_dict (rr_resource_class rr) (rr_amount rr)
      in setitem provider_resources rp_uuid res_dict)"

text \<open>One pass of the outer loop, lines 97-113.\<close>

definition list_allocation_request :: "allocation_request \<Rightarrow> json" where
  "list_allocation_request ar =
     (let provider_resources = foldl list_resource_request [] (resource_requests ar);
          allocs = map (\<lambda>(rp_uuid, resources).
                     JDict [(''resource_provider'', JDict [(''uuid'', JStr rp_uuid)]),
                            (''resources'', json_of_resources resources)])
                   provider_resources;
          alloc = JDict [(''allocations'', JList allocs)]
      in alloc)"

definition transform_allocation_requests_list :: "allocation_request list \<Rightarrow> json list" where
  "transform_allocation_requests_list alloc_reqs =
     foldl (\<lambda>results ar. results @ [list_allocation_request ar]) [] alloc_reqs"

section \<open>Provider summaries\<close>

text \<open>
  Lines 158-174. The dict comprehension over \<^verbatim>\<open>ps.resources\<close> assigns key by key.
  \<^verbatim>\<open>ret[uuid]['traits'] = ...\<close> reads back the dict stored under \<^verbatim>\<open>uuid\<close> on the line
  before and adds the key to it.
\<close>

definition provider_summary_step ::
  "bool \<Rightarrow> (string \<times> json) list \<Rightarrow> provider_summary \<Rightarrow> (string \<times> json) list" where
  "provider_summary_step include_traits ret ps =
     (let resources =
            foldl (\<lambda>d psr. setitem d (psr_resource_class psr)
                      (JDict [(''capacity'', JInt (psr_capacity psr)),
                              (''used'', JInt (psr_used psr))]))
                  [] (ps_resources ps);
          entry = [(''resources'', JDict resources)];
          ret = setitem ret (uuid (ps_resource_provider ps)) (JDict entry)
      in if include_traits
         then setitem ret (uuid (ps_resource_provider ps))
                (JDict (setitem entry ''traits''
                   (JList (map (\<lambda>t. JStr (trait_name t)) (ps_traits ps)))))
         else ret)"

definition transform_provider_summaries ::
  "provider_summary list \<Rightarrow> bool \<Rightarrow> (string \<times> json) list" where
  "transform_provider_summaries p_sums include_traits =
     foldl (provider_summary_step include_traits) [] p_sums"

section \<open>Microversions\<close>

type_synonym version = "nat \<times> nat"

text \<open>
  Modelled from the spec: \<^verbatim>\<open>Version.matches\<close> of \<^verbatim>\<open>placement/microversion.py\<close>, which is not
  among the sources. The spec, section 3: a microversion is a (major, minor) ordered pair,
  and \<^verbatim>\<open>matches\<close> is the comparison "version \<open>\<ge>\<close> threshold"; pairs compare as Python tuples
  do, major first.
\<close>

definition matches :: "version \<Rightarrow> version \<Rightarrow> bool" where
  "matches want_version min_version \<longleftrightarrow>
     fst min_version < fst want_version \<or>
     (fst min_version = fst want_version \<and> snd min_version \<le> snd want_version)"

section \<open>The candidate transformer\<close>

definition transform_allocation_candidates :: "allocation_candidates \<Rightarrow> version \<Rightarrow> json" where
  "transform_allocation_candidates alloc_cands want_version =
     (let a_reqs =
            (if matches want_version (1, 12)
             then transform_allocation_requests_dict (allocation_requests alloc_cands)
             else transform_allocation_requests_list (allocation_requests alloc_cands));
          include_traits = matches want_version (1, 17);
          p_sums = transform_provider_summaries (provider_summaries alloc_cands) include_traits
      in JDict [(''allocation_requests'', JList a_reqs),
                (''provider_summaries'', JDict p_sums)])"

section \<open>The handler\<close>

text \<open>
  The query schemas of \<^verbatim>\<open>placement/schemas/allocation_candidate.py\<close> by name: the handler
  only chooses among them.
\<close>

datatype schema = GET_SCHEMA_1_10 | GET_SCHEMA_1_16 | GET_SCHEMA_1_17 | GET_SCHEMA_1_21

text \<open>
  The exceptions the handler tells apart. \<open>ResourceClassNotFound\<close> and \<open>TraitNotFound\<close> carry
  the text \<^verbatim>\<open>str(exc)\<close>, \<open>HTTPBadRequest\<close> its message; \<open>OtherException\<close> is an exception
  of any other class.
\<close>

datatype exn =
  HTTPBadRequest string
| ResourceClassNotFound string
| TraitNotFound string
| OtherException string

text \<open>
  The local variable \<^verbatim>\<open>limit\<close>: the list \<^verbatim>\<open>req.GET.getall('limit')\<close>, replaced by an int when
  the list is not empty.
\<close>

datatype limit = ParamList "string list" | PyInt int

record response =
  body :: string
  content_type :: string
  cache_control :: "string option"
  last_modified :: "nat option"

record 'c request =
  placement_context :: 'c
  microversion :: version
  GET :: "(string \<times> string) list"
  req_response :: response

text \<open>
  What the handler calls outside this module: the query validator and parser of
  \<^verbatim>\<open>placement/util.py\<close>, the matching engine, Python's \<^verbatim>\<open>int\<close> on text, the JSON and UTF-8
  encoders and the clock. A call either raises (\<open>Inl\<close>) or returns (\<open>Inr\<close>).
\<close>

record ('c, 'g) collaborators =
  validate_query_params :: "'c request \<Rightarrow> schema \<Rightarrow> exn + unit"
  parse_qs_request_groups :: "(string \<times> string) list \<Rightarrow> exn + 'g"
  get_by_requests :: "'c \<Rightarrow> 'g \<Rightarrow> limit \<Rightarrow> exn + allocation_candidates"
  py_int :: "string \<Rightarrow> exn + int"
  dumps :: "json \<Rightarrow> string"
  to_utf8 :: "string \<Rightarrow> string"
  utcnow :: nat

text \<open>The calls the handler makes, in order, so that "never called" can be stated.\<close>

datatype ('c, 'g) call =
  ValidateQueryParams schema
| ParseQsRequestGroups
| GetByRequests 'c 'g limit
| TransformAllocationCandidates

definition getall :: "(string \<times> string) list \<Rightarrow> string \<Rightarrow> string list" where
  "getall params k = map snd (filter (\<lambda>p. fst p = k) params)"

text \<open>Lines 214-220.\<close>

definition get_schema :: "version \<Rightarrow> schema" where
  "get_schema want_version =
     (if matches want_version (1, 21) then GET_SCHEMA_1_21
      else if matches want_version (1, 17) then GET_SCHEMA_1_17
      else if matches want_version (1, 16) then GET_SCHEMA_1_16
      else GET_SCHEMA_1_10)"

text \<open>Lines 224-228.\<close>

definition query_limit :: "(string \<Rightarrow> exn + int) \<Rightarrow> (string \<times> string) list \<Rightarrow> exn + limit" where
  "query_limit int_of params =
     (case getall params ''limit'' of
        [] \<Rightarrow> Inr (ParamList [])
      | first # _ \<Rightarrow> (case int_of first of Inl exc \<Rightarrow> Inl exc | Inr n \<Rightarrow> Inr (PyInt n)))"

text \<open>
  Lines 212-248, without the three decorators. The result is the list of calls made and
  either the exception that leaves the handler or the response. \<open>get_schema\<close> above is the
  value of the local variable of that name.
\<close>

definition list_allocation_candidates ::
  "('c, 'g) collaborators \<Rightarrow> 'c request \<Rightarrow> ('c, 'g) call list \<times> (exn + response)" where
  "list_allocation_candidates ext req =
     (let context = placement_context req;
          want_version = microversion req;
          calls = [ValidateQueryParams (get_schema want_version)]
      in case validate_query_params ext req (get_schema want_version) of
           Inl exc \<Rightarrow> (calls, Inl exc)
         | Inr _ \<Rightarrow>
             (let calls = calls @ [ParseQsRequestGroups]
              in case parse_qs_request_groups ext (GET req) of
                   Inl exc \<Rightarrow> (calls, Inl exc)
                 | Inr requests \<Rightarrow>
                     (case query_limit (py_int ext) (GET req) of
                        Inl exc \<Rightarrow> (calls, Inl exc)
                      | Inr limit \<Rightarrow>
                          (let calls = calls @ [GetByRequests context requests limit]
                           in case get_by_requests ext context requests limit of
                                Inl (ResourceClassNotFound text) \<Rightarrow>
                                  (calls, Inl (HTTPBadRequest
                                     (''Invalid resource class in resources parameter: '' @ text)))
                              | Inl (TraitNotFound text) \<Rightarrow> (calls, Inl (HTTPBadRequest text))
                              | Inl exc \<Rightarrow> (calls, Inl exc)
                              | Inr cands \<Rightarrow>
                                  (let calls = calls @ [TransformAllocationCandidates];
                                       trx_cands = transform_allocation_candidates cands want_version;
                                       json_data = dumps ext trx_cands;
                                       response = (req_response req)
                                         \<lparr>body := to_utf8 ext json_data,
                                          content_type := ''application/json''\<rparr>
                                   in (calls,
                                       Inr (if matches want_version (1, 15)
                                            then response\<lparr>cache_control := Some ''no-cache'',
                                                          last_modified := Some (utcnow ext)\<rparr>
                                            else response)))))))"

section \<open>Reading the wire formats\<close>

text \<open>
  What a client reads off a serialised object: the value under a key, and the
  (provider, resource class, amount) facts an allocation request of either format states.
\<close>

fun json_get :: "json \<Rightarrow> string \<Rightarrow> json option" where
  "json_get (JDict kvs) k = map_of kvs k"
| "json_get _ k = None"

fun json_keys :: "json \<Rightarrow> string list" where
  "json_keys (JDict kvs) = map fst kvs"
| "json_keys _ = []"

definition resource_facts :: "json \<Rightarrow> (string \<times> int) list" where
  "resource_facts j =
     (case j of
        JDict kvs \<Rightarrow> concat (map (\<lambda>(rc, v). case v of JInt a \<Rightarrow> [(rc, a)] | _ \<Rightarrow> []) kvs)
      | _ \<Rightarrow> [])"

definition facts_grouped :: "json \<Rightarrow> (string \<times> string \<times> int) list" where
  "facts_grouped alloc =
     (case json_get alloc ''allocations'' of
        Some (JDict provs) \<Rightarrow>
          concat (map (\<lambda>(rp_uuid, e).
            case json_get e ''resources'' of
              Some r \<Rightarrow> map (\<lambda>(rc, a). (rp_uuid, rc, a)) (resource_facts r)
            | None \<Rightarrow> []) provs)
      | _ \<Rightarrow> [])"

definition facts_flat :: "json \<Rightarrow> (string \<times> string \<times> int) list" where
  "facts_flat alloc =
     (case json_get alloc ''allocations'' of
        Some (JList entries) \<Rightarrow>
          concat (map (\<lambda>e.
            case json_get e ''resource_provider'' of
              Some p \<Rightarrow>
                (case json_get p ''uuid'' of
                   Some (JStr rp_uuid) \<Rightarrow>
                     (case json_get e ''resources'' of
                        Some r \<Rightarrow> map (\<lambda>(rc, a). (rp_uuid, rc, a)) (resource_facts r)
                      | None \<Rightarrow> [])
                 | _ \<Rightarrow> [])
            | None \<Rightarrow> []) entries)
      | _ \<Rightarrow> [])"

text \<open>The facts an AllocationRequest of the engine states, in its order.\<close>

definition request_facts :: "allocation_request \<Rightarrow> (string \<times> string \<times> int) list" where
  "request_facts ar =
     map (\<lambda>rr. (uuid (rr_resource_provider rr), rr_resource_class rr, rr_amount rr))
       (resource_requests ar)"

definition no_duplicate_pairs :: "allocation_request \<Rightarrow> bool" where
  "no_duplicate_pairs ar \<longleftrightarrow> distinct (map (\<lambda>(u, c, a). (u, c)) (request_facts ar))"

text \<open>The amount of the last request for a (provider, resource class) pair, if any.\<close>

definition last_amount :: "allocation_request \<Rightarrow> string \<Rightarrow> string \<Rightarrow> int option" where
  "last_amount ar u c = map_of (rev (map (\<lambda>(u, c, a). ((u, c), a)) (request_facts ar))) (u, c)"

text \<open>Which of the two shapes of section 4.4 an allocation request has.\<close>

definition is_grouped :: "json \<Rightarrow> bool" where
  "is_grouped alloc = (case json_get alloc ''allocations'' of Some (JDict _) \<Rightarrow> True | _ \<Rightarrow> False)"

definition is_flat :: "json \<Rightarrow> bool" where
  "is_flat alloc = (case json_get alloc ''allocations'' of Some (JList _) \<Rightarrow> True | _ \<Rightarrow> False)"






text \<open>
  The schema as the spec words the selection: the highest threshold the version reaches, tried
  from the highest down.
\<close>

definition schema_for :: "version \<Rightarrow> schema" where
  "schema_for want_version =
     (let major = fst want_version; minor = snd want_version
      in if 1 < major \<or> (major = 1 \<and> 21 \<le> minor) then GET_SCHEMA_1_21
         else if 1 < major \<or> (major = 1 \<and> 17 \<le> minor) then GET_SCHEMA_1_17
         else if 1 < major \<or> (major = 1 \<and> 16 \<le> minor) then GET_SCHEMA_1_16
         else GET_SCHEMA_1_10)"

fun is_validate_call :: "('c, 'g) call \<Rightarrow> bool" where
  "is_validate_call (ValidateQueryParams s) = True"
| "is_validate_call _ = False"

fun is_engine_call :: "('c, 'g) call \<Rightarrow> bool" where
  "is_engine_call (GetByRequests c g l) = True"
| "is_engine_call _ = False"

section \<open>Notions used in the proofs\<close>

text \<open>
  The grouped transformer's dict is the flat transformer's dict with every value wrapped in
  \<^verbatim>\<open>{'resources': ...}\<close>.
\<close>

definition wrap_entries :: "(string \<times> (string \<times> int) list) list \<Rightarrow> (string \<times> rp_entry) list" where
  "wrap_entries g = map (\<lambda>(rp_uuid, r). (rp_uuid, \<lparr>resources = r\<rparr>)) g"

definition lookup2 :: "(string \<times> (string \<times> int) list) list \<Rightarrow> string \<Rightarrow> string \<Rightarrow> int option" where
  "lookup2 g u c = (case map_of g u of None \<Rightarrow> None | Some r \<Rightarrow> map_of r c)"

definition group_facts ::
  "(string \<times> (string \<times> int) list) list \<Rightarrow> (string \<times> string \<times> int) list" where
  "group_facts g = concat (map (\<lambda>(rp_uuid, r). map (\<lambda>(rc, a). (rp_uuid, rc, a)) r) g)"

text \<open>The invariant of both inner loops: no key twice, at either level.\<close>

definition wf_groups :: "(string \<times> (string \<times> int) list) list \<Rightarrow> bool" where
  "wf_groups g \<longleftrightarrow> distinct (map fst g) \<and> list_all (\<lambda>(rp_uuid, r). distinct (map fst r)) g"

text \<open>The entry one ProviderSummary leaves in \<^verbatim>\<open>ret\<close>.\<close>

definition summary_entry :: "bool \<Rightarrow> provider_summary \<Rightarrow> json" where
  "summary_entry include_traits ps = snd (hd (provider_summary_step include_traits [] ps))"

section \<open>Example scenarios\<close>

text \<open>
  The scenario of the spec's section 8: one AllocationRequest, provider A supplying
  \<^verbatim>\<open>{VCPU: 2}\<close> and provider B supplying \<^verbatim>\<open>{MEMORY_MB: 512}\<close>.
\<close>

definition example_request :: allocation_request where
  "example_request =
     \<lparr>resource_requests =
        [\<lparr>rr_resource_provider = \<lparr>uuid = ''A''\<rparr>, rr_resource_class = ''VCPU'', rr_amount = 2\<rparr>,
         \<lparr>rr_resource_provider = \<lparr>uuid = ''B''\<rparr>, rr_resource_class = ''MEMORY_MB'',
          rr_amount = 512\<rparr>]\<rparr>"

definition example_summary :: provider_summary where
  "example_summary =
     \<lparr>ps_resource_provider = \<lparr>uuid = ''A''\<rparr>,
      ps_resources = [\<lparr>psr_resource_class = ''VCPU'', psr_capacity = 4, psr_used = 0\<rparr>],
      ps_traits = [\<lparr>trait_name = ''HW_CPU_X86_AVX512F''\<rparr>]\<rparr>"

definition example_candidates :: allocation_candidates where
  "example_candidates =
     \<lparr>allocation_requests = [example_request], provider_summaries = [example_summary]\<rparr>"

text \<open>An engine's answer of five candidates, whatever the limit.\<close>

definition five_candidates :: allocation_candidates where
  "five_candidates =
     \<lparr>allocation_requests = replicate 5 example_request, provider_summaries = [example_summary]\<rparr>"

text \<open>
  Collaborators for the scenarios: a validator that wants a \<^verbatim>\<open>resources\<close> parameter, a
  parser that keeps the raw \<^verbatim>\<open>resources\<close> values, and an engine that knows no resource
  class BOGUS, loses its database on FAIL and answers five candidates otherwise.
\<close>

definition example_collaborators :: "(unit, string list) collaborators" where
  "example_collaborators =
     \<lparr>validate_query_params = (\<lambda>req s.
        if getall (GET req) ''resources'' = []
        then Inl (HTTPBadRequest ''Invalid query string parameters'') else Inr ()),
      parse_qs_request_groups = (\<lambda>params. Inr (getall params ''resources'')),
      get_by_requests = (\<lambda>context requests limit.
        if requests = [''BOGUS:1'']
        then Inl (ResourceClassNotFound ''No such resource class BOGUS.'')
        else if requests = [''FAIL:1''] then Inl (OtherException ''DBConnectionError'')
        else Inr five_candidates),
      py_int = (\<lambda>s. if s = ''2'' then Inr 2 else Inl (OtherException ''ValueError'')),
      dumps = (\<lambda>j. ''{}''),
      to_utf8 = (\<lambda>s. s),
      utcnow = 0\<rparr>"

text \<open>
  The same collaborators with a validator that tells the schemas apart: \<^verbatim>\<open>member_of\<close> is
  a valid parameter under \<^verbatim>\<open>GET_SCHEMA_1_21\<close> only.
\<close>

definition versioned_collaborators :: "(unit, string list) collaborators" where
  "versioned_collaborators =
     example_collaborators
       \<lparr>validate_query_params := (\<lambda>req s.
          if getall (GET req) ''member_of'' \<noteq> [] \<and> s \<noteq> GET_SCHEMA_1_21
          then Inl (HTTPBadRequest ''Invalid query string parameters'') else Inr ())\<rparr>"

definition example_get :: "version \<Rightarrow> (string \<times> string) list \<Rightarrow> unit request" where
  "example_get want_version params =
     \<lparr>placement_context = (), microversion = want_version, GET = params,
      req_response = \<lparr>body = [], content_type = [], cache_control = None, last_modified = None\<rparr>\<rparr>"

section \<open>Lemmas\<close>

lemma foldl_append_each: "foldl (\<lambda>results x. results @ [f x]) acc xs = acc @ map f xs"
  by (induction xs arbitrary: acc) simp_all

lemma transform_dict_map:
  "transform_allocation_requests_dict alloc_reqs = map dict_allocation_request alloc_reqs"
  by (simp add: transform_allocation_requests_dict_def foldl_append_each)

lemma transform_list_map:
  "transform_allocation_requests_list alloc_reqs = map list_allocation_request alloc_reqs"
  by (simp add: transform_allocation_requests_list_def foldl_append_each)

lemma update_map_value:
  "AList.update k (f v) (map (\<lambda>(k, v). (k, f v)) al) = map (\<lambda>(k, v). (k, f v)) (AList.update k v al)"
  by (induction al) auto

lemma map_of_wrap_entries:
  "map_of (wrap_entries g) k = map_option (\<lambda>r. \<lparr>resources = r\<rparr>) (map_of g k)"
  by (simp add: wrap_entries_def map_of_map)

lemma wrap_entries_update:
  "AList.update k \<lparr>resources = r\<rparr> (wrap_entries g) = wrap_entries (AList.update k r g)"
  unfolding wrap_entries_def by (rule update_map_value)

lemma dict_step_wrap:
  "dict_resource_request (wrap_entries g) rr = wrap_entries (list_resource_request g rr)"
  by (cases "map_of g (uuid (rr_resource_provider rr))")
     (simp_all add: dict_resource_request_def list_resource_request_def defaultdict_getitem_def
        map_of_wrap_entries wrap_entries_update)

lemma dict_fold_wrap:
  "foldl dict_resource_request (wrap_entries g) rrs = wrap_entries (foldl list_resource_request g rrs)"
  by (induction rrs arbitrary: g) (simp_all add: dict_step_wrap)

lemma lookup2_step:
  "lookup2 (list_resource_request g rr) u c =
     (if u = uuid (rr_resource_provider rr) \<and> c = rr_resource_class rr then Some (rr_amount rr)
      else lookup2 g u c)"
  by (cases "map_of g (uuid (rr_resource_provider rr))")
     (auto simp add: lookup2_def list_resource_request_def defaultdict_getitem_def update_conv')

lemma resource_facts_json_of_resources: "resource_facts (json_of_resources r) = r"
  by (induction r) (auto simp add: resource_facts_def json_of_resources_def)

lemma facts_flat_list_request:
  "facts_flat (list_allocation_request ar) =
     group_facts (foldl list_resource_request [] (resource_requests ar))"
proof -
  have "concat (map (\<lambda>e. case json_get e ''resource_provider'' of
              Some p \<Rightarrow>
                (case json_get p ''uuid'' of
                   Some (JStr rp_uuid) \<Rightarrow>
                     (case json_get e ''resources'' of
                        Some r \<Rightarrow> map (\<lambda>(rc, a). (rp_uuid, rc, a)) (resource_facts r)
                      | None \<Rightarrow> [])
                 | _ \<Rightarrow> [])
            | None \<Rightarrow> [])
          (map (\<lambda>(rp_uuid, resources).
                     JDict [(''resource_provider'', JDict [(''uuid'', JStr rp_uuid)]),
                            (''resources'', json_of_resources resources)]) g)) = group_facts g" for g
    by (induction g) (auto simp add: group_facts_def resource_facts_json_of_resources)
  then show ?thesis
    by (simp add: facts_flat_def list_allocation_request_def)
qed

lemma facts_grouped_wrap:
  "facts_grouped (JDict [(''allocations'',
       JDict (map (\<lambda>(rp_uuid, e). (rp_uuid, json_of_rp_entry e)) (wrap_entries g)))]) = group_facts g"
  by (induction g)
     (auto simp add: facts_grouped_def group_facts_def wrap_entries_def json_of_rp_entry_def
        resource_facts_json_of_resources)

lemma facts_grouped_dict_request:
  "facts_grouped (dict_allocation_request ar) =
     group_facts (foldl list_resource_request [] (resource_requests ar))"
proof -
  have "foldl dict_resource_request [] (resource_requests ar) =
        wrap_entries (foldl list_resource_request [] (resource_requests ar))"
    using dict_fold_wrap [of "[]"] by (simp add: wrap_entries_def)
  then show ?thesis
    by (simp add: dict_allocation_request_def facts_grouped_wrap)
qed

lemma list_all_update:
  "list_all (\<lambda>(k, v). Q v) al \<Longrightarrow> Q v \<Longrightarrow> list_all (\<lambda>(k, v). Q v) (AList.update k v al)"
  by (induction al) auto

lemma list_all_map_of:
  "list_all (\<lambda>(k, v). Q v) al \<Longrightarrow> map_of al k = Some v \<Longrightarrow> Q v"
  by (auto simp add: list_all_iff dest: map_of_SomeD)

lemma wf_groups_step:
  assumes "wf_groups g"
  shows "wf_groups (list_resource_request g rr)"
proof (cases "map_of g (uuid (rr_resource_provider rr))")
  case None
  with assms show ?thesis
    by (simp add: wf_groups_def list_resource_request_def defaultdict_getitem_def
        distinct_update list_all_update)
next
  case (Some r)
  with assms have "distinct (map fst r)"
    unfolding wf_groups_def by (blast intro: list_all_map_of [where Q = "\<lambda>r. distinct (map fst r)"])
  with assms Some show ?thesis
    by (simp add: wf_groups_def list_resource_request_def defaultdict_getitem_def
        distinct_update list_all_update)
qed

lemma wf_groups_fold: "wf_groups g \<Longrightarrow> wf_groups (foldl list_resource_request g rrs)"
  by (induction rrs arbitrary: g) (simp_all add: wf_groups_step)

lemma set_group_facts:
  assumes "wf_groups g"
  shows "set (group_facts g) = {(u, c, a). lookup2 g u c = Some a}"
proof -
  have inner: "distinct (map fst r)" if "(u, r) \<in> set g" for u r
    using assms that by (auto simp add: wf_groups_def list_all_iff)
  have outer: "distinct (map fst g)"
    using assms by (simp add: wf_groups_def)
  have "(u, c, a) \<in> set (group_facts g) \<longleftrightarrow> lookup2 g u c = Some a" for u c a
  proof
    assume "(u, c, a) \<in> set (group_facts g)"
    then obtain r where r: "(u, r) \<in> set g" "(c, a) \<in> set r"
      by (auto simp add: group_facts_def)
    then have "map_of g u = Some r" "map_of r c = Some a"
      using outer inner [OF r(1)] by simp_all
    then show "lookup2 g u c = Some a"
      by (simp add: lookup2_def)
  next
    assume "lookup2 g u c = Some a"
    then obtain r where r: "map_of g u = Some r" "map_of r c = Some a"
      by (auto simp add: lookup2_def split: option.splits)
    then have "(u, r) \<in> set g" "(c, a) \<in> set r"
      by (auto dest: map_of_SomeD)
    then show "(u, c, a) \<in> set (group_facts g)"
      by (force simp add: group_facts_def)
  qed
  then show ?thesis by auto
qed


lemma lookup2_fold:
  "lookup2 (foldl list_resource_request g rrs) u c =
     (case map_of (rev (map (\<lambda>rr. ((uuid (rr_resource_provider rr), rr_resource_class rr), rr_amount rr)) rrs)) (u, c) of
        Some a \<Rightarrow> Some a
      | None \<Rightarrow> lookup2 g u c)"
  by (induction rrs arbitrary: g) (auto simp add: lookup2_step split: option.splits)

lemma wf_groups_requests: "wf_groups (foldl list_resource_request [] rrs)"
  by (rule wf_groups_fold) (simp add: wf_groups_def)

lemma lookup2_Nil: "lookup2 [] u c = None"
  by (simp add: lookup2_def)

lemma request_group_facts:
  "set (group_facts (foldl list_resource_request [] (resource_requests ar))) =
     {(u, c, a). last_amount ar u c = Some a}"
proof -
  have "map (\<lambda>(u, c, a). ((u, c), a)) (request_facts ar) =
        map (\<lambda>rr. ((uuid (rr_resource_provider rr), rr_resource_class rr), rr_amount rr))
          (resource_requests ar)"
    by (simp add: request_facts_def)
  then have "lookup2 (foldl list_resource_request [] (resource_requests ar)) u c = last_amount ar u c"
    for u c
    by (simp add: lookup2_fold last_amount_def lookup2_Nil split: option.splits)
  then show ?thesis
    by (simp add: set_group_facts [OF wf_groups_requests])
qed

lemma last_amount_no_duplicates:
  assumes "no_duplicate_pairs ar"
  shows "{(u, c, a). last_amount ar u c = Some a} = set (request_facts ar)"
proof -
  have "map fst (map (\<lambda>(u, c, a). ((u, c), a)) (request_facts ar)) =
        map (\<lambda>(u, c, a). (u, c)) (request_facts ar)"
    by (induction "request_facts ar") auto
  with assms have "distinct (map fst (rev (map (\<lambda>(u, c, a). ((u, c), a)) (request_facts ar))))"
    by (simp add: no_duplicate_pairs_def rev_map [symmetric] del: map_map)
  then have "last_amount ar u c = Some a \<longleftrightarrow> (u, c, a) \<in> set (request_facts ar)" for u c a
    unfolding last_amount_def by (subst map_of_eq_Some_iff) force+
  then show ?thesis by auto
qed

lemma matches_iff:
  "matches want_version (major, minor) \<longleftrightarrow>
     major < fst want_version \<or> (fst want_version = major \<and> minor \<le> snd want_version)"
  by (auto simp add: matches_def)

lemma provider_summary_step_update:
  "provider_summary_step include_traits ret ps =
     setitem ret (uuid (ps_resource_provider ps)) (summary_entry include_traits ps)"
  by (simp add: provider_summary_step_def summary_entry_def Let_def)

lemma summary_entry_traits:
  "json_get (summary_entry include_traits ps) ''traits'' =
     (if include_traits then Some (JList (map JStr (map trait_name (ps_traits ps)))) else None)"
  by (simp add: provider_summary_step_def summary_entry_def Let_def)

lemma summary_entry_keys:
  "json_keys (summary_entry include_traits ps) =
     (if include_traits then [''resources'', ''traits''] else [''resources''])"
  by (simp add: provider_summary_step_def summary_entry_def Let_def)

lemma find_append:
  "find P (xs @ ys) = (case find P xs of None \<Rightarrow> find P ys | Some x \<Rightarrow> Some x)"
  by (induction xs) simp_all

lemma summaries_fold_lookup:
  "map_of (foldl (provider_summary_step b) ret p_sums) u =
     (case find (\<lambda>ps. uuid (ps_resource_provider ps) = u) (rev p_sums) of
        None \<Rightarrow> map_of ret u
      | Some ps \<Rightarrow> Some (summary_entry b ps))"
  by (induction p_sums arbitrary: ret)
     (auto simp add: provider_summary_step_update update_conv' find_append split: option.splits)

lemma summaries_fold_keys:
  "fst ` set (foldl (provider_summary_step b) ret p_sums) =
     fst ` set ret \<union> (\<lambda>ps. uuid (ps_resource_provider ps)) ` set p_sums"
  by (induction p_sums arbitrary: ret) (auto simp add: provider_summary_step_update dom_update)

lemma summaries_fold_distinct:
  "distinct (map fst ret) \<Longrightarrow> distinct (map fst (foldl (provider_summary_step b) ret p_sums))"
  by (induction p_sums arbitrary: ret) (simp_all add: provider_summary_step_update distinct_update)

lemma summaries_fold_entries:
  "list_all (\<lambda>(u, e). \<exists>ps. e = summary_entry b ps) ret \<Longrightarrow>
   list_all (\<lambda>(u, e). \<exists>ps. e = summary_entry b ps) (foldl (provider_summary_step b) ret p_sums)"
proof (induction p_sums arbitrary: ret)
  case Nil
  then show ?case by simp
next
  case (Cons ps p_sums)
  have "list_all (\<lambda>(u, e). \<exists>ps. e = summary_entry b ps) (provider_summary_step b ret ps)"
    unfolding provider_summary_step_update
    using Cons.prems by (rule list_all_update) blast
  then show ?case
    using Cons.IH by simp
qed

lemma dict_request_grouped: "is_grouped (dict_allocation_request ar) \<and> \<not> is_flat (dict_allocation_request ar)"
  by (simp add: is_grouped_def is_flat_def dict_allocation_request_def)

lemma list_request_flat: "is_flat (list_allocation_request ar) \<and> \<not> is_grouped (list_allocation_request ar)"
  by (simp add: is_grouped_def is_flat_def list_allocation_request_def)

lemma engine_failure_result:
  assumes "validate_query_params ext req (get_schema (microversion req)) = Inr ()"
    and "parse_qs_request_groups ext (GET req) = Inr requests"
    and "query_limit (py_int ext) (GET req) = Inr limit"
    and "get_by_requests ext (placement_context req) requests limit = Inl exc"
  shows "list_allocation_candidates ext req =
           ([ValidateQueryParams (get_schema (microversion req)), ParseQsRequestGroups,
             GetByRequests (placement_context req) requests limit],
            Inl (case exc of
                   ResourceClassNotFound text \<Rightarrow>
                     HTTPBadRequest (''Invalid resource class in resources parameter: '' @ text)
                 | TraitNotFound text \<Rightarrow> HTTPBadRequest text
                 | _ \<Rightarrow> exc))"
  using assms by (simp add: list_allocation_candidates_def split: exn.splits)

lemma sublist_prepend: "sublist xs ys \<Longrightarrow> sublist xs (ps @ ys)"
  using sublist_order.order_trans [OF _ sublist_append_leftI] .

lemma allocation_requests_count:
  "\<exists>a_reqs.
     json_get (transform_allocation_candidates alloc_cands want_version) ''allocation_requests'' =
       Some (JList a_reqs) \<and>
     length a_reqs = length (allocation_requests alloc_cands)"
  by (simp add: transform_allocation_candidates_def transform_dict_map transform_list_map)








lemma get_schema_chain: "get_schema want_version = schema_for want_version"
  by (simp add: get_schema_def schema_for_def matches_iff Let_def)

lemma handler_validator_only_at_schema:
  assumes "validator req (get_schema (microversion req)) =
      validate_query_params ext req (get_schema (microversion req))"
  shows "list_allocation_candidates (ext\<lparr>validate_query_params := validator\<rparr>) req =
      list_allocation_candidates ext req"
  using assms
  by (simp add: list_allocation_candidates_def Let_def split: sum.splits exn.splits)

section \<open>The claims\<close>

lemma example_collaborators_simps:
  "validate_query_params example_collaborators req s =
     (if getall (GET req) ''resources'' = []
      then Inl (HTTPBadRequest ''Invalid query string parameters'') else Inr ())"
  "parse_qs_request_groups example_collaborators params = Inr (getall params ''resources'')"
  "get_by_requests example_collaborators context requests limit =
     (if requests = [''BOGUS:1'']
      then Inl (ResourceClassNotFound ''No such resource class BOGUS.'')
      else if requests = [''FAIL:1''] then Inl (OtherException ''DBConnectionError'')
      else Inr five_candidates)"
  "py_int example_collaborators txt = (if txt = ''2'' then Inr 2 else Inl (OtherException ''ValueError''))"
  by (simp_all add: example_collaborators_def)

text \<open>
  Claim C1. The format of \<^verbatim>\<open>allocation_requests\<close> is a function of the negotiated version
  alone: at 1.12 and above the value under \<^verbatim>\<open>allocation_requests\<close> is the output of the
  grouped-by-provider transform and every object in it has a dict under \<^verbatim>\<open>allocations\<close>; below
  1.12 it is the output of the flat-list transform and every object has a list there. In
  neither case does an object of the other shape occur.
\<close>

theorem allocation_format_by_version:
  "\<exists>a_reqs.
     json_get (transform_allocation_candidates alloc_cands want_version) ''allocation_requests'' =
       Some (JList a_reqs) \<and>
     (if 1 < fst want_version \<or> (fst want_version = 1 \<and> 12 \<le> snd want_version)
      then a_reqs = transform_allocation_requests_dict (allocation_requests alloc_cands) \<and>
           list_all is_grouped a_reqs \<and> \<not> list_ex is_flat a_reqs
      else a_reqs = transform_allocation_requests_list (allocation_requests alloc_cands) \<and>
           list_all is_flat a_reqs \<and> \<not> list_ex is_grouped a_reqs)"
  by (simp add: transform_allocation_candidates_def matches_iff transform_dict_map
      transform_list_map list_all_iff list_ex_iff dict_request_grouped list_request_flat)

theorem allocation_format_by_version_witness:
  "json_get (transform_allocation_candidates example_candidates (1, 11)) ''allocation_requests'' =
     Some (JList [JDict [(''allocations'',
       JList [JDict [(''resource_provider'', JDict [(''uuid'', JStr ''A'')]),
                     (''resources'', JDict [(''VCPU'', JInt 2)])],
              JDict [(''resource_provider'', JDict [(''uuid'', JStr ''B'')]),
                     (''resources'', JDict [(''MEMORY_MB'', JInt 512)])]])]]) \<and>
   json_get (transform_allocation_candidates example_candidates (1, 12)) ''allocation_requests'' =
     Some (JList [JDict [(''allocations'',
       JDict [(''A'', JDict [(''resources'', JDict [(''VCPU'', JInt 2)])]),
              (''B'', JDict [(''resources'', JDict [(''MEMORY_MB'', JInt 512)])])])]])"
  using allocation_format_by_version [of example_candidates "(1, 11)"]
    allocation_format_by_version [of example_candidates "(1, 12)"]
  by (simp add: example_candidates_def example_request_def transform_dict_map transform_list_map
      dict_allocation_request_def list_allocation_request_def dict_resource_request_def
      list_resource_request_def defaultdict_getitem_def json_of_rp_entry_def
      json_of_resources_def Let_def)

text \<open>
  Claim C2. Reshaping is lossless: when no AllocationRequest names a (provider, resource
  class) pair twice, the facts read off the i-th object of the flat-list output and off the
  i-th object of the grouped output are both exactly the (provider, class, amount) triples of
  the i-th AllocationRequest, hence the same.
\<close>

theorem reshaping_lossless:
  assumes "\<forall>ar \<in> set alloc_reqs. no_duplicate_pairs ar"
  shows "map (\<lambda>j. set (facts_flat j)) (transform_allocation_requests_list alloc_reqs) =
           map (\<lambda>j. set (facts_grouped j)) (transform_allocation_requests_dict alloc_reqs) \<and>
         map (\<lambda>j. set (facts_flat j)) (transform_allocation_requests_list alloc_reqs) =
           map (\<lambda>ar. set (request_facts ar)) alloc_reqs \<and>
         map (\<lambda>j. set (facts_grouped j)) (transform_allocation_requests_dict alloc_reqs) =
           map (\<lambda>ar. set (request_facts ar)) alloc_reqs"
  using assms
  by (simp add: transform_dict_map transform_list_map facts_flat_list_request
      facts_grouped_dict_request request_group_facts last_amount_no_duplicates)

theorem reshaping_lossless_witness:
  "no_duplicate_pairs example_request \<and>
   map (\<lambda>j. set (facts_flat j)) (transform_allocation_requests_list [example_request]) =
     [{(''A'', ''VCPU'', 2), (''B'', ''MEMORY_MB'', 512)}] \<and>
   map (\<lambda>j. set (facts_grouped j)) (transform_allocation_requests_dict [example_request]) =
     [{(''A'', ''VCPU'', 2), (''B'', ''MEMORY_MB'', 512)}]"
proof -
  have h: "\<forall>ar \<in> set [example_request]. no_duplicate_pairs ar"
    by (simp add: no_duplicate_pairs_def request_facts_def example_request_def)
  from reshaping_lossless [OF h] h show ?thesis
    by (simp add: request_facts_def example_request_def)
qed



text \<open>
  Claim C4. \<^verbatim>\<open>include_traits\<close> is handed to the provider-summary transform as "version at
  least 1.17". When it is false no entry of the mapping has a \<^verbatim>\<open>traits\<close> key; when it is true
  every entry has one, holding a list of names.
\<close>

theorem traits_gated_by_version:
  "json_get (transform_allocation_candidates alloc_cands want_version) ''provider_summaries'' =
     Some (JDict (transform_provider_summaries (provider_summaries alloc_cands)
       (1 < fst want_version \<or> (fst want_version = 1 \<and> 17 \<le> snd want_version)))) \<and>
   (\<forall>(rp_uuid, e) \<in> set (transform_provider_summaries p_sums include_traits).
      if include_traits
      then \<exists>names. json_get e ''traits'' = Some (JList (map JStr names))
      else ''traits'' \<notin> set (json_keys e))"
proof -
  have "list_all (\<lambda>(u, e). \<exists>ps. e = summary_entry include_traits ps)
      (transform_provider_summaries p_sums include_traits)"
    unfolding transform_provider_summaries_def by (rule summaries_fold_entries) simp
  then have entries: "\<exists>ps. e = summary_entry include_traits ps"
    if "(rp_uuid, e) \<in> set (transform_provider_summaries p_sums include_traits)" for rp_uuid e
    using that by (auto simp add: list_all_iff)
  have "if include_traits
      then \<exists>names. json_get e ''traits'' = Some (JList (map JStr names))
      else ''traits'' \<notin> set (json_keys e)"
    if "(rp_uuid, e) \<in> set (transform_provider_summaries p_sums include_traits)" for rp_uuid e
  proof -
    from entries [OF that] obtain ps where e: "e = summary_entry include_traits ps" ..
    show ?thesis
    proof (cases include_traits)
      case True
      then have "json_get e ''traits'' = Some (JList (map JStr (map trait_name (ps_traits ps))))"
        by (simp add: e summary_entry_traits)
      with True show ?thesis by (simp del: map_map) blast
    next
      case False
      then show ?thesis by (simp add: e summary_entry_keys)
    qed
  qed
  then have "\<forall>(rp_uuid, e) \<in> set (transform_provider_summaries p_sums include_traits).
      if include_traits
      then \<exists>names. json_get e ''traits'' = Some (JList (map JStr names))
      else ''traits'' \<notin> set (json_keys e)"
    by blast
  then show ?thesis
    by (simp add: transform_allocation_candidates_def matches_iff)
qed

theorem traits_gated_by_version_witness:
  "transform_provider_summaries [example_summary] False =
     [(''A'', JDict [(''resources'',
         JDict [(''VCPU'', JDict [(''capacity'', JInt 4), (''used'', JInt 0)])])])] \<and>
   transform_provider_summaries [example_summary] True =
     [(''A'', JDict [(''resources'',
         JDict [(''VCPU'', JDict [(''capacity'', JInt 4), (''used'', JInt 0)])]),
        (''traits'', JList [JStr ''HW_CPU_X86_AVX512F''])])] \<and>
   json_get (transform_allocation_candidates example_candidates (1, 16)) ''provider_summaries'' =
     Some (JDict (transform_provider_summaries [example_summary] False)) \<and>
   json_get (transform_allocation_candidates example_candidates (1, 17)) ''provider_summaries'' =
     Some (JDict (transform_provider_summaries [example_summary] True))"
  using traits_gated_by_version [of example_candidates "(1, 16)" "[example_summary]" False]
    traits_gated_by_version [of example_candidates "(1, 17)" "[example_summary]" True]
  by (simp add: example_candidates_def example_summary_def transform_provider_summaries_def
      provider_summary_step_def Let_def)

text \<open>
  Claim C5. When \<^verbatim>\<open>validate_query_params\<close> raises, the handler makes no further call:
  the exception leaves the handler as it is (the validator raises the HTTP 400), the matching
  engine is not called and nothing is transformed. The outcome is the same with any other
  engine in its place.
\<close>

theorem validation_failure_skips_engine:
  assumes "validate_query_params ext req (get_schema (microversion req)) = Inl exc"
  shows "list_allocation_candidates ext req =
           ([ValidateQueryParams (get_schema (microversion req))], Inl exc) \<and>
         \<not> list_ex is_engine_call (fst (list_allocation_candidates ext req)) \<and>
         TransformAllocationCandidates \<notin> set (fst (list_allocation_candidates ext req)) \<and>
         (\<forall>engine. list_allocation_candidates (ext\<lparr>get_by_requests := engine\<rparr>) req =
            list_allocation_candidates ext req)"
  using assms by (simp add: list_allocation_candidates_def)

theorem validation_failure_skips_engine_witness:
  "validate_query_params example_collaborators (example_get (1, 10) [(''limit'', ''2'')])
     (get_schema (microversion (example_get (1, 10) [(''limit'', ''2'')]))) =
     Inl (HTTPBadRequest ''Invalid query string parameters'') \<and>
   list_allocation_candidates example_collaborators (example_get (1, 10) [(''limit'', ''2'')]) =
     ([ValidateQueryParams GET_SCHEMA_1_10], Inl (HTTPBadRequest ''Invalid query string parameters''))"
proof -
  have h: "validate_query_params example_collaborators (example_get (1, 10) [(''limit'', ''2'')])
     (get_schema (microversion (example_get (1, 10) [(''limit'', ''2'')]))) =
     Inl (HTTPBadRequest ''Invalid query string parameters'')"
    by (simp add: example_collaborators_simps example_get_def getall_def)
  have s: "get_schema (microversion (example_get (1, 10) [(''limit'', ''2'')])) = GET_SCHEMA_1_10"
    by (simp add: example_get_def get_schema_def matches_def)
  from validation_failure_skips_engine [OF h] h show ?thesis
    unfolding s by simp
qed

text \<open>
  Claim C6. When the engine raises, it has been called once and the transformer is not
  called. A ResourceClassNotFound or TraitNotFound becomes an HTTP 400 whose message contains
  the text of the exception, so every name that text mentions; any other exception leaves the
  handler unchanged.
\<close>

theorem engine_errors_translated:
  assumes "validate_query_params ext req (get_schema (microversion req)) = Inr ()"
    and "parse_qs_request_groups ext (GET req) = Inr requests"
    and "query_limit (py_int ext) (GET req) = Inr limit"
    and "get_by_requests ext (placement_context req) requests limit = Inl exc"
  shows "fst (list_allocation_candidates ext req) =
           [ValidateQueryParams (get_schema (microversion req)), ParseQsRequestGroups,
            GetByRequests (placement_context req) requests limit] \<and>
         (case exc of
            ResourceClassNotFound text \<Rightarrow>
              \<exists>msg. snd (list_allocation_candidates ext req) = Inl (HTTPBadRequest msg) \<and>
                (\<forall>name. sublist name text \<longrightarrow> sublist name msg)
          | TraitNotFound text \<Rightarrow>
              \<exists>msg. snd (list_allocation_candidates ext req) = Inl (HTTPBadRequest msg) \<and>
                (\<forall>name. sublist name text \<longrightarrow> sublist name msg)
          | _ \<Rightarrow> snd (list_allocation_candidates ext req) = Inl exc)"
  unfolding engine_failure_result [OF assms]
  by (cases exc) (auto simp del: append.simps intro: sublist_prepend)

theorem engine_errors_translated_witness:
  "list_allocation_candidates example_collaborators (example_get (1, 10) [(''resources'', ''BOGUS:1'')]) =
     ([ValidateQueryParams GET_SCHEMA_1_10, ParseQsRequestGroups,
       GetByRequests () [''BOGUS:1''] (ParamList [])],
      Inl (HTTPBadRequest
        ''Invalid resource class in resources parameter: No such resource class BOGUS.'')) \<and>
   list_allocation_candidates example_collaborators (example_get (1, 10) [(''resources'', ''FAIL:1'')]) =
     ([ValidateQueryParams GET_SCHEMA_1_10, ParseQsRequestGroups,
       GetByRequests () [''FAIL:1''] (ParamList [])],
      Inl (OtherException ''DBConnectionError''))"
proof -
  let ?bogus = "example_get (1, 10) [(''resources'', ''BOGUS:1'')]"
  let ?fail = "example_get (1, 10) [(''resources'', ''FAIL:1'')]"
  have v: "validate_query_params example_collaborators ?bogus (get_schema (microversion ?bogus)) = Inr ()"
    "validate_query_params example_collaborators ?fail (get_schema (microversion ?fail)) = Inr ()"
    by (simp_all add: example_collaborators_simps example_get_def getall_def)
  have p: "parse_qs_request_groups example_collaborators (GET ?bogus) = Inr [''BOGUS:1'']"
    "parse_qs_request_groups example_collaborators (GET ?fail) = Inr [''FAIL:1'']"
    by (simp_all add: example_collaborators_simps example_get_def getall_def)
  have l: "query_limit (py_int example_collaborators) (GET ?bogus) = Inr (ParamList [])"
    "query_limit (py_int example_collaborators) (GET ?fail) = Inr (ParamList [])"
    by (simp_all add: query_limit_def example_get_def getall_def)
  have e: "get_by_requests example_collaborators (placement_context ?bogus) [''BOGUS:1''] (ParamList []) =
      Inl (ResourceClassNotFound ''No such resource class BOGUS.'')"
    "get_by_requests example_collaborators (placement_context ?fail) [''FAIL:1''] (ParamList []) =
      Inl (OtherException ''DBConnectionError'')"
    by (simp_all add: example_collaborators_simps)
  from engine_errors_translated [OF v(1) p(1) l(1) e(1)]
    engine_errors_translated [OF v(2) p(2) l(2) e(2)]
  show ?thesis
    by (simp add: list_allocation_candidates_def example_collaborators_simps example_get_def
        getall_def query_limit_def get_schema_def matches_def Let_def)
qed

text \<open>
  Claim C7. Every request is validated once, against the schema of the highest of the
  thresholds 1.21, 1.17 and 1.16 the version reaches, and against \<^verbatim>\<open>GET_SCHEMA_1_10\<close> when it
  reaches none: what the validator raises on that schema is what leaves the handler, and the
  handler's result is the same for every validator that agrees on that schema, whatever it
  says on the other three.
\<close>

theorem schema_selection:
  "filter is_validate_call (fst (list_allocation_candidates ext req)) =
     [ValidateQueryParams (schema_for (microversion req))] \<and>
   (\<forall>exc. validate_query_params ext req (schema_for (microversion req)) = Inl exc \<longrightarrow>
      list_allocation_candidates ext req =
        ([ValidateQueryParams (schema_for (microversion req))], Inl exc)) \<and>
   (\<forall>validator.
      validator req (schema_for (microversion req)) =
        validate_query_params ext req (schema_for (microversion req)) \<longrightarrow>
      list_allocation_candidates (ext\<lparr>validate_query_params := validator\<rparr>) req =
        list_allocation_candidates ext req)"
proof -
  have "filter is_validate_call (fst (list_allocation_candidates ext req)) =
      [ValidateQueryParams (get_schema (microversion req))]"
    by (simp add: list_allocation_candidates_def Let_def split: sum.splits exn.splits)
  moreover have "list_allocation_candidates ext req =
        ([ValidateQueryParams (get_schema (microversion req))], Inl exc)"
    if "validate_query_params ext req (get_schema (microversion req)) = Inl exc" for exc
    using that by (simp add: list_allocation_candidates_def)
  ultimately show ?thesis
    unfolding get_schema_chain [symmetric]
    using handler_validator_only_at_schema [of _ req ext] by blast
qed

theorem schema_selection_witness:
  "validate_query_params versioned_collaborators
     (example_get (1, 17) [(''resources'', ''VCPU:2''), (''member_of'', ''agg1'')])
     (schema_for (1, 17)) = Inl (HTTPBadRequest ''Invalid query string parameters'') \<and>
   list_allocation_candidates versioned_collaborators
     (example_get (1, 17) [(''resources'', ''VCPU:2''), (''member_of'', ''agg1'')]) =
     ([ValidateQueryParams GET_SCHEMA_1_17],
      Inl (HTTPBadRequest ''Invalid query string parameters'')) \<and>
   fst (list_allocation_candidates versioned_collaborators
     (example_get (1, 21) [(''resources'', ''VCPU:2''), (''member_of'', ''agg1'')])) =
     [ValidateQueryParams GET_SCHEMA_1_21, ParseQsRequestGroups,
      GetByRequests () [''VCPU:2''] (ParamList []), TransformAllocationCandidates] \<and>
   list_allocation_candidates
     (versioned_collaborators
        \<lparr>validate_query_params :=
           (\<lambda>req s. Inl (HTTPBadRequest ''Invalid query string parameters''))\<rparr>)
     (example_get (1, 17) [(''resources'', ''VCPU:2''), (''member_of'', ''agg1'')]) =
   list_allocation_candidates versioned_collaborators
     (example_get (1, 17) [(''resources'', ''VCPU:2''), (''member_of'', ''agg1'')])"
proof -
  let ?q = "[(''resources'', ''VCPU:2''), (''member_of'', ''agg1'')]"
  have m: "microversion (example_get v ?q) = v" for v
    by (simp add: example_get_def)
  have s: "schema_for (1, 17) = GET_SCHEMA_1_17" "schema_for (1, 21) = GET_SCHEMA_1_21"
    by (simp_all add: schema_for_def)
  have v: "validate_query_params versioned_collaborators (example_get (1, 17) ?q)
      (schema_for (1, 17)) = Inl (HTTPBadRequest ''Invalid query string parameters'')"
    by (simp add: schema_for_def versioned_collaborators_def example_get_def getall_def)
  have ok: "fst (list_allocation_candidates versioned_collaborators (example_get (1, 21) ?q)) =
     [ValidateQueryParams GET_SCHEMA_1_21, ParseQsRequestGroups,
      GetByRequests () [''VCPU:2''] (ParamList []), TransformAllocationCandidates]"
    by (simp add: list_allocation_candidates_def versioned_collaborators_def
        example_collaborators_def example_get_def getall_def query_limit_def get_schema_def
        matches_def Let_def)
  from schema_selection [of versioned_collaborators "example_get (1, 17) ?q"] v ok
  show ?thesis
    unfolding m s by simp
qed

text \<open>
  Claim C8. The engine is called with the limit of the query: the int of the first
  \<^verbatim>\<open>limit\<close> parameter, or the empty list \<^verbatim>\<open>getall\<close> returned when there is none. Whatever the
  engine returns is transformed whole and serialised into the body: \<^verbatim>\<open>allocation_requests\<close>
  has as many objects as the engine returned AllocationRequests, whatever the limit.
\<close>

theorem limit_passed_results_not_truncated:
  assumes "validate_query_params ext req (get_schema (microversion req)) = Inr ()"
    and "parse_qs_request_groups ext (GET req) = Inr requests"
    and "query_limit (py_int ext) (GET req) = Inr limit"
    and "get_by_requests ext (placement_context req) requests limit = Inr cands"
  shows "fst (list_allocation_candidates ext req) =
           [ValidateQueryParams (get_schema (microversion req)), ParseQsRequestGroups,
            GetByRequests (placement_context req) requests limit,
            TransformAllocationCandidates] \<and>
         (case getall (GET req) ''limit'' of
            [] \<Rightarrow> limit = ParamList []
          | first # _ \<Rightarrow> \<exists>n. py_int ext first = Inr n \<and> limit = PyInt n) \<and>
         (\<exists>r a_reqs.
            snd (list_allocation_candidates ext req) = Inr r \<and>
            body r = to_utf8 ext (dumps ext (transform_allocation_candidates cands (microversion req))) \<and>
            json_get (transform_allocation_candidates cands (microversion req)) ''allocation_requests'' =
              Some (JList a_reqs) \<and>
            length a_reqs = length (allocation_requests cands))"
proof -
  have calls: "fst (list_allocation_candidates ext req) =
           [ValidateQueryParams (get_schema (microversion req)), ParseQsRequestGroups,
            GetByRequests (placement_context req) requests limit,
            TransformAllocationCandidates]"
    using assms by (simp add: list_allocation_candidates_def Let_def)
  have lim: "case getall (GET req) ''limit'' of
            [] \<Rightarrow> limit = ParamList []
          | first # _ \<Rightarrow> \<exists>n. py_int ext first = Inr n \<and> limit = PyInt n"
    using assms(3) by (auto simp add: query_limit_def split: list.splits sum.splits)
  obtain r where r: "snd (list_allocation_candidates ext req) = Inr r"
    "body r = to_utf8 ext (dumps ext (transform_allocation_candidates cands (microversion req)))"
    using assms by (simp add: list_allocation_candidates_def Let_def)
  from allocation_requests_count [of cands "microversion req"] r calls lim
  show ?thesis by blast
qed

theorem limit_passed_results_not_truncated_witness:
  "fst (list_allocation_candidates example_collaborators
          (example_get (1, 17) [(''resources'', ''VCPU:2''), (''limit'', ''2'')])) =
     [ValidateQueryParams GET_SCHEMA_1_17, ParseQsRequestGroups,
      GetByRequests () [''VCPU:2''] (PyInt 2), TransformAllocationCandidates] \<and>
   (\<exists>a_reqs.
      json_get (transform_allocation_candidates five_candidates (1, 17)) ''allocation_requests'' =
        Some (JList a_reqs) \<and>
      length a_reqs = 5)"
proof -
  let ?req = "example_get (1, 17) [(''resources'', ''VCPU:2''), (''limit'', ''2'')]"
  have s: "get_schema (1, 17) = GET_SCHEMA_1_17"
    by (simp add: get_schema_def matches_def)
  have v: "validate_query_params example_collaborators ?req (get_schema (microversion ?req)) = Inr ()"
    by (simp add: example_collaborators_simps example_get_def getall_def)
  have p: "parse_qs_request_groups example_collaborators (GET ?req) = Inr [''VCPU:2'']"
    by (simp add: example_collaborators_simps example_get_def getall_def)
  have l: "query_limit (py_int example_collaborators) (GET ?req) = Inr (PyInt 2)"
    by (simp add: query_limit_def example_get_def getall_def example_collaborators_simps)
  have e: "get_by_requests example_collaborators (placement_context ?req) [''VCPU:2''] (PyInt 2) =
      Inr five_candidates"
    by (simp add: example_collaborators_simps)
  have m: "microversion ?req = (1, 17)" "placement_context ?req = ()"
    by (simp_all add: example_get_def)
  have n: "length (allocation_requests five_candidates) = 5"
    by (simp add: five_candidates_def)
  from limit_passed_results_not_truncated [OF v p l e]
  show ?thesis
    unfolding m s n by blast
qed

text \<open>
  Claim C9. Both allocation-request transforms return a list as long as their input, in
  which the i-th object is what the transform returns for the i-th AllocationRequest alone;
  the empty list is mapped to the empty list.
\<close>

theorem transforms_preserve_candidates:
  "length (transform_allocation_requests_dict alloc_reqs) = length alloc_reqs \<and>
   length (transform_allocation_requests_list alloc_reqs) = length alloc_reqs \<and>
   (\<forall>i < length alloc_reqs.
      transform_allocation_requests_dict alloc_reqs ! i =
        transform_allocation_requests_dict [alloc_reqs ! i] ! 0 \<and>
      transform_allocation_requests_list alloc_reqs ! i =
        transform_allocation_requests_list [alloc_reqs ! i] ! 0) \<and>
   transform_allocation_requests_dict [] = [] \<and>
   transform_allocation_requests_list [] = []"
  by (simp add: transform_dict_map transform_list_map)

theorem transforms_preserve_candidates_witness:
  "(1::nat) < length [example_request, \<lparr>resource_requests = []\<rparr>] \<and>
   transform_allocation_requests_dict [example_request, \<lparr>resource_requests = []\<rparr>] ! 1 =
     transform_allocation_requests_dict [\<lparr>resource_requests = []\<rparr>] ! 0 \<and>
   transform_allocation_requests_list [example_request, \<lparr>resource_requests = []\<rparr>] ! 1 =
     transform_allocation_requests_list [\<lparr>resource_requests = []\<rparr>] ! 0 \<and>
   transform_allocation_requests_dict [example_request, \<lparr>resource_requests = []\<rparr>] ! 1 =
     JDict [(''allocations'', JDict [])] \<and>
   transform_allocation_requests_list [example_request, \<lparr>resource_requests = []\<rparr>] ! 1 =
     JDict [(''allocations'', JList [])]"
  using transforms_preserve_candidates [of "[example_request, \<lparr>resource_requests = []\<rparr>]"]
  by (simp add: transform_allocation_requests_dict_def transform_allocation_requests_list_def
      dict_allocation_request_def list_allocation_request_def Let_def)

text \<open>
  Claim C10. The keys of the provider-summary mapping are the provider uuids of the input,
  each once; the entry under a uuid is the one the last ProviderSummary with that uuid
  produces, so a later summary replaces an earlier one's entry.
\<close>

theorem provider_summaries_keys:
  "set (map fst (transform_provider_summaries p_sums include_traits)) =
     set (map (\<lambda>ps. uuid (ps_resource_provider ps)) p_sums) \<and>
   distinct (map fst (transform_provider_summaries p_sums include_traits)) \<and>
   (\<forall>u. map_of (transform_provider_summaries p_sums include_traits) u =
      (case find (\<lambda>ps. uuid (ps_resource_provider ps) = u) (rev p_sums) of
         None \<Rightarrow> None
       | Some ps \<Rightarrow> map_of (transform_provider_summaries [ps] include_traits) u))"
proof -
  have one: "map_of (transform_provider_summaries [ps] include_traits) u =
      Some (summary_entry include_traits ps)" if "uuid (ps_resource_provider ps) = u" for ps u
    using that by (simp add: transform_provider_summaries_def provider_summary_step_update)
  have "map_of (transform_provider_summaries p_sums include_traits) u =
      (case find (\<lambda>ps. uuid (ps_resource_provider ps) = u) (rev p_sums) of
         None \<Rightarrow> None
       | Some ps \<Rightarrow> map_of (transform_provider_summaries [ps] include_traits) u)" for u
  proof (cases "find (\<lambda>ps. uuid (ps_resource_provider ps) = u) (rev p_sums)")
    case None
    then show ?thesis
      by (simp add: transform_provider_summaries_def summaries_fold_lookup)
  next
    case (Some ps)
    then have "uuid (ps_resource_provider ps) = u"
      by (auto simp add: find_Some_iff)
    with Some show ?thesis
      by (simp add: one) (simp add: transform_provider_summaries_def summaries_fold_lookup)
  qed
  then show ?thesis
    by (simp add: transform_provider_summaries_def summaries_fold_keys summaries_fold_distinct)
qed

end
